theory Spec2Isabelle
  imports Complex_Main
begin

section \<open>Values read from the JSON files\<close>

text \<open>
  \<^verbatim>\<open>json.load\<close> turns a JSON document into a Python value: \<^verbatim>\<open>None\<close>, a bool, an int, a
  str, a list or a dict. A \<open>JObj\<close> keeps the members of the JSON object in the order of
  the text; as in Python, the last member of a repeated key wins. One \<open>char\<close> stands
  for one character of a Python str. JSON numbers with a fraction or an exponent (Python
  floats) are outside this model: neither file's schema has one.
\<close>

datatype json =
    JNull
  | JBool bool
  | JInt int
  | JStr string
  | JList "json list"
  | JObj "(string \<times> json) list"

datatype py_error =
    IOError
  | JSONDecodeError
  | TypeError
  | AttributeError
  | ZeroDivisionError

text \<open>What \<^verbatim>\<open>if v:\<close> tests.\<close>

fun truthy :: "json \<Rightarrow> bool" where
  "truthy JNull = False"
| "truthy (JBool b) = b"
| "truthy (JInt n) = (n \<noteq> 0)"
| "truthy (JStr s) = (s \<noteq> [])"
| "truthy (JList xs) = (xs \<noteq> [])"
| "truthy (JObj kvs) = (kvs \<noteq> [])"

text \<open>\<^verbatim>\<open>d.get(k, default)\<close> and \<^verbatim>\<open>k in d\<close> on a dict.\<close>

definition dict_get :: "(string \<times> json) list \<Rightarrow> string \<Rightarrow> json \<Rightarrow> json" where
  "dict_get kvs k dflt = (case map_of (rev kvs) k of None \<Rightarrow> dflt | Some v \<Rightarrow> v)"

definition dict_has :: "(string \<times> json) list \<Rightarrow> string \<Rightarrow> bool" where
  "dict_has kvs k = (map_of (rev kvs) k \<noteq> None)"

text \<open>The keys of a dict, each once, in the order of first insertion.\<close>

definition dict_keys :: "(string \<times> json) list \<Rightarrow> string list" where
  "dict_keys kvs = rev (remdups (rev (map fst kvs)))"

text \<open>
  \<^verbatim>\<open>len(v)\<close> and iteration over \<^verbatim>\<open>v\<close>: a list gives its elements, a dict its keys, a str
  its characters; anything else raises \<^verbatim>\<open>TypeError\<close>.
\<close>

fun py_len :: "json \<Rightarrow> py_error + nat" where
  "py_len (JList xs) = Inr (length xs)"
| "py_len (JObj kvs) = Inr (length (dict_keys kvs))"
| "py_len (JStr s) = Inr (length s)"
| "py_len _ = Inl TypeError"

fun py_iter :: "json \<Rightarrow> py_error + json list" where
  "py_iter (JList xs) = Inr xs"
| "py_iter (JObj kvs) = Inr (map JStr (dict_keys kvs))"
| "py_iter (JStr s) = Inr (map (\<lambda>c. JStr [c]) s)"
| "py_iter _ = Inl TypeError"

text \<open>
  \<^verbatim>\<open>set(v)\<close>: the elements of \<^verbatim>\<open>v\<close>, \<^verbatim>\<open>TypeError\<close> when \<^verbatim>\<open>v\<close> is not iterable or an
  element is a list or a dict (unhashable). The set is kept as the list of its elements;
  only membership is asked of it.
\<close>

fun hashable :: "json \<Rightarrow> bool" where
  "hashable (JList xs) = False"
| "hashable (JObj kvs) = False"
| "hashable _ = True"

definition py_set :: "json \<Rightarrow> py_error + json list" where
  "py_set v =
     (case py_iter v of
        Inl e \<Rightarrow> Inl e
      | Inr xs \<Rightarrow> if list_all hashable xs then Inr xs else Inl TypeError)"

text \<open>
  An int against a JSON value. A Python bool is an int (\<^verbatim>\<open>True == 1\<close>); an int is never
  equal to a str or to \<^verbatim>\<open>None\<close>, and comparing it with a value that is no number raises
  \<^verbatim>\<open>TypeError\<close>.
\<close>

fun py_as_int :: "json \<Rightarrow> int option" where
  "py_as_int (JInt n) = Some n"
| "py_as_int (JBool b) = Some (if b then 1 else 0)"
| "py_as_int _ = None"

definition py_in :: "nat \<Rightarrow> json list \<Rightarrow> bool" where
  "py_in i s = list_ex (\<lambda>v. py_as_int v = Some (int i)) s"

text \<open>
  \<^verbatim>\<open>str(v)\<close> as an f-string interpolates it. A str is itself; how Python prints any other
  value is the parameter \<open>fmt\<close>.
\<close>

definition py_format :: "(json \<Rightarrow> string) \<Rightarrow> json \<Rightarrow> string" where
  "py_format fmt v = (case v of JStr s \<Rightarrow> s | _ \<Rightarrow> fmt v)"

text \<open>The decimal digits of a natural number, for \<^verbatim>\<open>f"Test #{i+1}"\<close>.\<close>

function str_of_nat :: "nat \<Rightarrow> string" where
  "str_of_nat n =
     (if n < 10 then [''0123456789'' ! n]
      else str_of_nat (n div 10) @ [''0123456789'' ! (n mod 10)])"
  by pat_completeness auto
termination
  by (relation "measure id") auto

section \<open>Files, configuration and the outside world\<close>

text \<open>
  A file of the project directory is absent, present but unreadable (\<^verbatim>\<open>open\<close> or
  \<^verbatim>\<open>read_text\<close> raises an \<^verbatim>\<open>IOError\<close>), present with text that is not JSON
  (\<^verbatim>\<open>JSONDecodeError\<close>), or present with a JSON document.
\<close>

datatype disk_file = Absent | Unreadable | Malformed | Content json

definition file_exists :: "disk_file \<Rightarrow> bool" where
  "file_exists f = (f \<noteq> Absent)"

fun json_load :: "disk_file \<Rightarrow> py_error + json" where
  "json_load Absent = Inl IOError"
| "json_load Unreadable = Inl IOError"
| "json_load Malformed = Inl JSONDecodeError"
| "json_load (Content v) = Inr v"

text \<open>
  The module constants read from the environment at import, the name of the project
  directory, the two clock readings as the code formats them, whether each endpoint
  answers, and Python's printing of values that are not strings.
\<close>

record env =
  WEBHOOK_URL :: "string option"
  TELEGRAM_BOT_TOKEN :: "string option"
  TELEGRAM_CHAT_ID :: "string option"
  project_name :: string
  now_text :: string
  utcnow_iso :: string
  telegram_up :: bool
  webhook_up :: bool
  fmt_value :: "json \<Rightarrow> string"

text \<open>\<^verbatim>\<open>if X:\<close> on an environment value: set, and not the empty string.\<close>

fun env_set :: "string option \<Rightarrow> bool" where
  "env_set None = False"
| "env_set (Some s) = (s \<noteq> [])"

text \<open>
  The milestone message is a fixed template around these values: project name,
  passing, total, percentage, milestone, one bullet per recent description (no section
  when there is none) and the local time.
\<close>

record message =
  m_project :: string
  m_passing :: int
  m_total :: int
  m_percentage :: rat
  m_milestone :: int
  m_recent :: "string list"
  m_time :: string

record telegram_body =
  chat_id :: "string option"
  text_of :: message
  parse_mode :: string

record payload =
  p_event :: string
  p_passing :: int
  p_total :: int
  p_percentage :: rat
  p_previous_passing :: json
  p_tests_completed_this_session :: int
  p_completed_tests :: "json list"
  p_project :: string
  p_timestamp :: string

datatype request =
    TelegramPost "string option" telegram_body
  | WebhookPost "string option" "payload list"

datatype console_line =
    ProgressLine int int
  | Placeholder
  | TelegramFailed
  | WebhookFailed

text \<open>
  The world the functions act on: the two files of the project directory, the HTTP
  requests attempted so far and the lines printed so far. Writing the cache file is
  taken to succeed.
\<close>

record world =
  manifest :: disk_file
  cache :: disk_file
  outbox :: "request list"
  console :: "console_line list"

section \<open>The functions of progress.py\<close>

subsection \<open>The percentage\<close>

text \<open>
  \<^verbatim>\<open>a / b\<close> on ints raises \<^verbatim>\<open>ZeroDivisionError\<close> when \<^verbatim>\<open>b\<close> is zero. The quotient is kept
  as the exact rational; the binary rounding of a Python float is not modelled.
\<close>

definition py_truediv :: "int \<Rightarrow> int \<Rightarrow> py_error + rat" where
  "py_truediv a b = (if b = 0 then Inl ZeroDivisionError else Inr (of_int a / of_int b))"

text \<open>\<^verbatim>\<open>round(x, 1)\<close>: the nearest multiple of one tenth, a tie going to the even one.\<close>

definition py_round1 :: "rat \<Rightarrow> rat" where
  "py_round1 x =
     (let f = \<lfloor>x * 10\<rfloor>; d = x * 10 - of_int f
      in if d < 1 / 2 then of_int f / 10
         else if 1 / 2 < d then of_int (f + 1) / 10
         else if even f then of_int f / 10 else of_int (f + 1) / 10)"

text \<open>\<^verbatim>\<open>round((passing / total) * 100, 1) if total > 0 else 0\<close> (lines 75 and 148).\<close>

definition percentage :: "int \<Rightarrow> int \<Rightarrow> py_error + rat" where
  "percentage passing total' =
     (if total' > 0
      then (case py_truediv passing total' of
              Inl e \<Rightarrow> Inl e
            | Inr q \<Rightarrow> Inr (py_round1 (q * 100)))
      else Inr 0)"

subsection \<open>send_telegram_notification\<close>

definition telegram_configured :: "env \<Rightarrow> bool" where
  "telegram_configured ev = (env_set (TELEGRAM_BOT_TOKEN ev) \<and> env_set (TELEGRAM_CHAT_ID ev))"

text \<open>
  Returns at once when a credential is missing. Otherwise the request is attempted; a
  failure is caught, printed and answered with \<^verbatim>\<open>False\<close>.
\<close>

definition send_telegram_notification :: "env \<Rightarrow> message \<Rightarrow> world \<Rightarrow> bool \<times> world" where
  "send_telegram_notification ev msg w =
     (if \<not> env_set (TELEGRAM_BOT_TOKEN ev) \<or> \<not> env_set (TELEGRAM_CHAT_ID ev) then (False, w)
      else
        let w1 = w\<lparr>outbox := outbox w @
                   [TelegramPost (TELEGRAM_BOT_TOKEN ev)
                      \<lparr>chat_id = TELEGRAM_CHAT_ID ev, text_of = msg, parse_mode = ''HTML''\<rparr>]\<rparr>
        in if telegram_up ev then (True, w1)
           else (False, w1\<lparr>console := console w1 @ [TelegramFailed]\<rparr>))"

subsection \<open>check_telegram_milestone\<close>

definition TELEGRAM_MILESTONE_INTERVAL :: int where
  "TELEGRAM_MILESTONE_INTERVAL = 10"

text \<open>
  Line 91, \<^verbatim>\<open>desc = test[:60] + "..." if len(test) > 60 else test\<close>, and the
  interpolation of line 92. \<^verbatim>\<open>len\<close> raises on a value without a length; a list or dict
  of more than 60 entries raises at the slice or at \<^verbatim>\<open>+\<close>.
\<close>

definition shown :: "(json \<Rightarrow> string) \<Rightarrow> json \<Rightarrow> py_error + string" where
  "shown fmt test =
     (case py_len test of
        Inl e \<Rightarrow> Inl e
      | Inr n \<Rightarrow>
          if n > 60
          then (case test of JStr s \<Rightarrow> Inr (take 60 s @ ''...'') | _ \<Rightarrow> Inl TypeError)
          else Inr (py_format fmt test))"

text \<open>The loop of lines 89 to 92: it stops at the first entry that raises.\<close>

fun shown_all :: "(json \<Rightarrow> string) \<Rightarrow> json list \<Rightarrow> py_error + string list" where
  "shown_all fmt [] = Inr []"
| "shown_all fmt (test # rest) =
     (case shown fmt test of
        Inl e \<Rightarrow> Inl e
      | Inr d \<Rightarrow> (case shown_all fmt rest of Inl e \<Rightarrow> Inl e | Inr ds \<Rightarrow> Inr (d # ds)))"

text \<open>Lines 86 and 87: \<^verbatim>\<open>completed_tests[-5:] if len(completed_tests) > 5 else completed_tests\<close>.\<close>

definition recent :: "json list \<Rightarrow> json list" where
  "recent completed_tests =
     (if length completed_tests > 5 then drop (length completed_tests - 5) completed_tests
      else completed_tests)"

text \<open>
  Lines 75 to 94: the percentage, then the message with its recent descriptions.
\<close>

definition build_message :: "env \<Rightarrow> int \<Rightarrow> int \<Rightarrow> int \<Rightarrow> json list \<Rightarrow> py_error + message" where
  "build_message ev passing total' current_milestone completed_tests =
     (case percentage passing total' of
        Inl e \<Rightarrow> Inl e
      | Inr pct \<Rightarrow>
          (case shown_all (fmt_value ev) (recent completed_tests) of
             Inl e \<Rightarrow> Inl e
           | Inr descs \<Rightarrow>
               Inr \<lparr>m_project = project_name ev, m_passing = passing, m_total = total',
                    m_percentage = pct, m_milestone = current_milestone,
                    m_recent = descs, m_time = now_text ev\<rparr>))"

definition check_telegram_milestone ::
  "env \<Rightarrow> int \<Rightarrow> int \<Rightarrow> int \<Rightarrow> json list \<Rightarrow> world \<Rightarrow> py_error option \<times> world" where
  "check_telegram_milestone ev passing previous total' completed_tests w =
     (if \<not> env_set (TELEGRAM_BOT_TOKEN ev) \<or> \<not> env_set (TELEGRAM_CHAT_ID ev) then (None, w)
      else
        let previous_milestone = (previous div TELEGRAM_MILESTONE_INTERVAL) * TELEGRAM_MILESTONE_INTERVAL;
            current_milestone = (passing div TELEGRAM_MILESTONE_INTERVAL) * TELEGRAM_MILESTONE_INTERVAL
        in if current_milestone > previous_milestone
           then (case build_message ev passing total' current_milestone completed_tests of
                   Inl e \<Rightarrow> (Some e, w)
                 | Inr msg \<Rightarrow> (None, snd (send_telegram_notification ev msg w)))
           else (None, w))"

subsection \<open>send_progress_webhook\<close>

text \<open>
  Lines 102 to 112. Any exception while the cache is read or taken apart (an unreadable
  file, text that is not JSON, a document that is not a dict, indices that cannot go
  into a set) is caught: \<^verbatim>\<open>previous\<close> is set to 0 and the set keeps its initial empty
  value.
\<close>

definition read_cache :: "disk_file \<Rightarrow> json \<times> json list" where
  "read_cache cache_file =
     (if file_exists cache_file
      then (case json_load cache_file of
              Inl e \<Rightarrow> (JInt 0, [])
            | Inr cache_data \<Rightarrow>
                (case cache_data of
                   JObj kvs \<Rightarrow>
                     (let previous = dict_get kvs ''count'' (JInt 0)
                      in case py_set (dict_get kvs ''passing_indices'' (JList [])) of
                           Inl e \<Rightarrow> (JInt 0, [])
                         | Inr previous_passing_tests \<Rightarrow> (previous, previous_passing_tests))
                 | _ \<Rightarrow> (JInt 0, [])))
      else (JInt 0, []))"

text \<open>Lines 130 to 135: the entry of a newly passing test at position \<open>i\<close>.\<close>

definition completed_entry :: "(json \<Rightarrow> string) \<Rightarrow> nat \<Rightarrow> (string \<times> json) list \<Rightarrow> json" where
  "completed_entry fmt i test =
     (let desc = dict_get test ''description'' (JStr (''Test #'' @ str_of_nat (i + 1)));
          category = dict_get test ''category'' (JStr [])
      in if truthy category
         then JStr (''['' @ py_format fmt category @ ''] '' @ py_format fmt desc)
         else desc)"

text \<open>
  The loop of lines 125 to 135 from position \<open>i\<close> on: the pair of
  \<^verbatim>\<open>current_passing_indices\<close> and \<^verbatim>\<open>completed_tests\<close>. \<^verbatim>\<open>test.get\<close> raises
  \<^verbatim>\<open>AttributeError\<close> on an entry that is not a dict; the \<^verbatim>\<open>except: pass\<close> of line 136 ends
  the loop there and both lists keep what earlier entries appended.
\<close>

fun scan_tests :: "(json \<Rightarrow> string) \<Rightarrow> json list \<Rightarrow> nat \<Rightarrow> json list \<Rightarrow> nat list \<times> json list" where
  "scan_tests fmt prev i [] = ([], [])"
| "scan_tests fmt prev i (JObj test # rest) =
     (let (idx, completed) = scan_tests fmt prev (Suc i) rest
      in if truthy (dict_get test ''passes'' (JBool False))
         then (i # idx,
               if \<not> py_in i prev then completed_entry fmt i test # completed else completed)
         else (idx, completed))"
| "scan_tests fmt prev i (_ # rest) = ([], [])"

text \<open>Lines 117 to 137, with the file test and the \<^verbatim>\<open>try\<close> around the loop.\<close>

definition find_completed :: "(json \<Rightarrow> string) \<Rightarrow> json list \<Rightarrow> disk_file \<Rightarrow> nat list \<times> json list" where
  "find_completed fmt prev tests_file =
     (if file_exists tests_file
      then (case json_load tests_file of
              Inl e \<Rightarrow> ([], [])
            | Inr tests \<Rightarrow>
                (case py_iter tests of
                   Inl e \<Rightarrow> ([], [])
                 | Inr ts \<Rightarrow> scan_tests fmt prev 0 ts))
      else ([], []))"

text \<open>The loop of lines 180 to 182, in the branch that initialises the cache.\<close>

fun scan_indices :: "nat \<Rightarrow> json list \<Rightarrow> nat list" where
  "scan_indices i [] = []"
| "scan_indices i (JObj test # rest) =
     (if truthy (dict_get test ''passes'' (JBool False))
      then i # scan_indices (Suc i) rest
      else scan_indices (Suc i) rest)"
| "scan_indices i (_ # rest) = []"

definition find_indices :: "disk_file \<Rightarrow> nat list" where
  "find_indices tests_file =
     (if file_exists tests_file
      then (case json_load tests_file of
              Inl e \<Rightarrow> []
            | Inr tests \<Rightarrow>
                (case py_iter tests of
                   Inl e \<Rightarrow> []
                 | Inr ts \<Rightarrow> scan_indices 0 ts))
      else [])"

text \<open>Lines 167 to 170 and 185 to 188: what \<^verbatim>\<open>json.dumps\<close> writes, as \<^verbatim>\<open>json.loads\<close> reads it back.\<close>

definition cache_record :: "int \<Rightarrow> nat list \<Rightarrow> json" where
  "cache_record passing current_passing_indices =
     JObj [(''count'', JInt passing),
           (''passing_indices'', JList (map (\<lambda>i. JInt (int i)) current_passing_indices))]"

definition write_cache :: "int \<Rightarrow> nat list \<Rightarrow> world \<Rightarrow> world" where
  "write_cache passing current_passing_indices w =
     w\<lparr>cache := Content (cache_record passing current_passing_indices)\<rparr>"

text \<open>
  Lines 156 to 164: the request is attempted with the one-element list as its body; a
  failure is caught and printed.
\<close>

definition post_webhook :: "env \<Rightarrow> payload \<Rightarrow> world \<Rightarrow> world" where
  "post_webhook ev pl w =
     (let w1 = w\<lparr>outbox := outbox w @ [WebhookPost (WEBHOOK_URL ev) [pl]]\<rparr>
      in if webhook_up ev then w1 else w1\<lparr>console := console w1 @ [WebhookFailed]\<rparr>)"

text \<open>Lines 144 to 154: the payload.\<close>

definition build_payload ::
  "env \<Rightarrow> int \<Rightarrow> int \<Rightarrow> json \<Rightarrow> int \<Rightarrow> json list \<Rightarrow> py_error + payload" where
  "build_payload ev passing total' previous previous_n completed_tests =
     (case percentage passing total' of
        Inl e \<Rightarrow> Inl e
      | Inr pct \<Rightarrow>
          Inr \<lparr>p_event = ''test_progress'', p_passing = passing, p_total = total',
               p_percentage = pct, p_previous_passing = previous,
               p_tests_completed_this_session = passing - previous_n,
               p_completed_tests = completed_tests, p_project = project_name ev,
               p_timestamp = utcnow_iso ev @ ''Z''\<rparr>)"

text \<open>
  Lines 99 to 188. \<^verbatim>\<open>passing > previous\<close> (line 115) raises \<^verbatim>\<open>TypeError\<close> outside any
  \<^verbatim>\<open>try\<close> when the cached count is not a number; \<open>previous_n\<close> is its value as an int
  when it is one.
\<close>

definition send_progress_webhook :: "env \<Rightarrow> int \<Rightarrow> int \<Rightarrow> world \<Rightarrow> py_error option \<times> world" where
  "send_progress_webhook ev passing total' w =
     (let (previous, previous_passing_tests) = read_cache (cache w)
      in case py_as_int previous of
           None \<Rightarrow> (Some TypeError, w)
         | Some previous_n \<Rightarrow>
             if passing > previous_n
             then
               (let (current_passing_indices, completed_tests) =
                      find_completed (fmt_value ev) previous_passing_tests (manifest w)
                in case check_telegram_milestone ev passing previous_n total' completed_tests w of
                     (Some e, w1) \<Rightarrow> (Some e, w1)
                   | (None, w1) \<Rightarrow>
                       (if env_set (WEBHOOK_URL ev)
                        then (case build_payload ev passing total' previous previous_n
                                     completed_tests of
                                Inl e \<Rightarrow> (Some e, w1)
                              | Inr pl \<Rightarrow>
                                  (None, write_cache passing current_passing_indices
                                           (post_webhook ev pl w1)))
                        else (None, write_cache passing current_passing_indices w1)))
             else
               (if \<not> file_exists (cache w)
                then (None, write_cache passing (find_indices (manifest w)) w)
                else (None, w)))"

subsection \<open>count_passing_tests\<close>

text \<open>Line 219: \<^verbatim>\<open>isinstance(test, dict) and test.get("passes", False)\<close> as a condition.\<close>

definition counts_as_passing :: "json \<Rightarrow> bool" where
  "counts_as_passing test =
     (case test of JObj kvs \<Rightarrow> truthy (dict_get kvs ''passes'' (JBool False)) | _ \<Rightarrow> False)"

text \<open>
  Lines 201 to 223. The handler of line 222 catches \<^verbatim>\<open>JSONDecodeError\<close> and \<^verbatim>\<open>IOError\<close>
  only; any other exception of the body leaves the function.
\<close>

definition count_passing_tests :: "disk_file \<Rightarrow> py_error + int \<times> int" where
  "count_passing_tests tests_file =
     (if \<not> file_exists tests_file then Inr (0, 0)
      else
        let body =
          (case json_load tests_file of
             Inl e \<Rightarrow> Inl e
           | Inr data \<Rightarrow>
               (let tests =
                      (case data of
                         JList xs \<Rightarrow> JList xs
                       | JObj kvs \<Rightarrow>
                           if dict_has kvs ''features'' then dict_get kvs ''features'' JNull
                           else JList []
                       | _ \<Rightarrow> JList [])
                in case py_len tests of
                     Inl e \<Rightarrow> Inl e
                   | Inr n \<Rightarrow>
                       (case py_iter tests of
                          Inl e \<Rightarrow> Inl e
                        | Inr ts \<Rightarrow> Inr (int (length (filter counts_as_passing ts)), int n))))
        in case body of
             Inl JSONDecodeError \<Rightarrow> Inr (0, 0)
           | Inl IOError \<Rightarrow> Inr (0, 0)
           | r \<Rightarrow> r)"

subsection \<open>print_progress_summary\<close>

definition print_progress_summary :: "env \<Rightarrow> world \<Rightarrow> py_error option \<times> world" where
  "print_progress_summary ev w =
     (case count_passing_tests (manifest w) of
        Inl e \<Rightarrow> (Some e, w)
      | Inr (passing, total') \<Rightarrow>
          if total' > 0
          then send_progress_webhook ev passing total'
                 (w\<lparr>console := console w @ [ProgressLine passing total']\<rparr>)
          else (None, w\<lparr>console := console w @ [Placeholder]\<rparr>))"

section \<open>The specification's words\<close>


text \<open>
  The data-model invariant of the specification for a cache record computed from a
  manifest of \<open>total_count\<close> records: the stored count is the number of stored indices,
  and every stored index lies in \<open>[0, total_count)\<close>.
\<close>

definition spec_cache_invariant :: "int \<Rightarrow> json \<Rightarrow> bool" where
  "spec_cache_invariant total_count r =
     (case r of
        JObj kvs \<Rightarrow>
          (case (dict_get kvs ''count'' JNull, dict_get kvs ''passing_indices'' JNull) of
             (JInt c, JList idx) \<Rightarrow>
               c = int (length idx) \<and>
               list_all (\<lambda>v. case v of JInt i \<Rightarrow> 0 \<le> i \<and> i < total_count | _ \<Rightarrow> False) idx
           | _ \<Rightarrow> False)
      | _ \<Rightarrow> False)"

section \<open>Observing requests and entries\<close>


fun is_str :: "json \<Rightarrow> bool" where
  "is_str (JStr s) = True"
| "is_str _ = False"

section \<open>Concrete configurations\<close>

text \<open>Both sinks configured and answering; and no sink configured.\<close>

definition env_all :: env where
  "env_all =
     \<lparr>WEBHOOK_URL = Some ''https://hooks.example/progress'', TELEGRAM_BOT_TOKEN = Some ''token'',
      TELEGRAM_CHAT_ID = Some ''42'', project_name = ''demo'', now_text = ''2025-01-01 12:00:00'',
      utcnow_iso = ''2025-01-01T12:00:00'', telegram_up = True, webhook_up = True,
      fmt_value = (\<lambda>v. ''?'')\<rparr>"

definition env_none :: env where
  "env_none =
     \<lparr>WEBHOOK_URL = None, TELEGRAM_BOT_TOKEN = None, TELEGRAM_CHAT_ID = None,
      project_name = ''demo'', now_text = ''2025-01-01 12:00:00'',
      utcnow_iso = ''2025-01-01T12:00:00'', telegram_up = True, webhook_up = True,
      fmt_value = (\<lambda>v. ''?'')\<rparr>"

section \<open>Basic facts\<close>

lemma percentage_total:
  "percentage passing total' =
     Inr (if total' > 0 then py_round1 (of_int passing / of_int total' * 100) else 0)"
  by (simp add: percentage_def py_truediv_def)


lemma count_passing_tests_list:
  "count_passing_tests (Content (JList xs)) =
     Inr (int (length (filter counts_as_passing xs)), int (length xs))"
  by (simp add: count_passing_tests_def file_exists_def)


lemma count_passing_tests_no_file:
  "count_passing_tests Absent = Inr (0, 0)"
  "count_passing_tests Unreadable = Inr (0, 0)"
  "count_passing_tests Malformed = Inr (0, 0)"
  by (simp_all add: count_passing_tests_def file_exists_def)



section \<open>How the functions act on the world\<close>

lemma fst_scan_tests: "fst (scan_tests fmt prev i ts) = scan_indices i ts"
  by (induction fmt prev i ts rule: scan_tests.induct) (auto split: prod.splits)

lemma fst_find_completed: "fst (find_completed fmt prev f) = find_indices f"
  by (simp add: find_completed_def find_indices_def fst_scan_tests split: sum.splits)

lemma build_payload_total:
  "build_payload ev passing total' previous n completed =
     Inr \<lparr>p_event = ''test_progress'', p_passing = passing, p_total = total',
          p_percentage = (if total' > 0 then py_round1 (of_int passing / of_int total' * 100) else 0),
          p_previous_passing = previous, p_tests_completed_this_session = passing - n,
          p_completed_tests = completed, p_project = project_name ev,
          p_timestamp = utcnow_iso ev @ ''Z''\<rparr>"
  by (simp add: build_payload_def percentage_total)

lemma build_message_flat:
  "build_message ev passing total' m completed =
     (case shown_all (fmt_value ev) (recent completed) of
        Inl e \<Rightarrow> Inl e
      | Inr descs \<Rightarrow>
          Inr \<lparr>m_project = project_name ev, m_passing = passing, m_total = total',
               m_percentage = (if total' > 0 then py_round1 (of_int passing / of_int total' * 100) else 0),
               m_milestone = m, m_recent = descs, m_time = now_text ev\<rparr>)"
  by (simp add: build_message_def percentage_total)

lemma send_telegram_notification_world:
  "telegram_configured ev \<Longrightarrow>
   snd (send_telegram_notification ev msg w) =
     w\<lparr>outbox := outbox w @ [TelegramPost (TELEGRAM_BOT_TOKEN ev)
                 \<lparr>chat_id = TELEGRAM_CHAT_ID ev, text_of = msg, parse_mode = ''HTML''\<rparr>],
       console := console w @ (if telegram_up ev then [] else [TelegramFailed])\<rparr>"
  by (simp add: send_telegram_notification_def telegram_configured_def Let_def)

lemma check_telegram_milestone_flat:
  "check_telegram_milestone ev passing previous total' completed_tests w =
     (if telegram_configured ev \<and> (passing div 10) * 10 > (previous div 10) * 10
      then (case build_message ev passing total' ((passing div 10) * 10) completed_tests of
              Inl e \<Rightarrow> (Some e, w)
            | Inr msg \<Rightarrow>
                (None, w\<lparr>outbox := outbox w @ [TelegramPost (TELEGRAM_BOT_TOKEN ev)
                   \<lparr>chat_id = TELEGRAM_CHAT_ID ev, text_of = msg, parse_mode = ''HTML''\<rparr>],
                   console := console w @ (if telegram_up ev then [] else [TelegramFailed])\<rparr>))
      else (None, w))"
proof (cases "telegram_configured ev")
  case True
  then have "env_set (TELEGRAM_BOT_TOKEN ev)" "env_set (TELEGRAM_CHAT_ID ev)"
    by (simp_all add: telegram_configured_def)
  with True show ?thesis
    by (cases "build_message ev passing total' ((passing div 10) * 10) completed_tests")
      (simp_all add: check_telegram_milestone_def TELEGRAM_MILESTONE_INTERVAL_def
        send_telegram_notification_world [OF True])
next
  case False
  then show ?thesis
    by (auto simp: check_telegram_milestone_def telegram_configured_def)
qed

lemma check_telegram_milestone_raises:
  "check_telegram_milestone ev passing previous total' completed_tests w = (Some e, w') \<Longrightarrow> w' = w"
  by (auto simp: check_telegram_milestone_flat split: if_splits sum.splits)

lemma check_telegram_milestone_frame:
  "check_telegram_milestone ev passing previous total' completed_tests w = (r, w') \<Longrightarrow>
     cache w' = cache w \<and> manifest w' = manifest w"
  by (auto simp: check_telegram_milestone_flat split: if_splits sum.splits)

lemma check_telegram_milestone_raise_indep:
  "check_telegram_milestone ev passing previous total' completed_tests w = (Some e, w') \<Longrightarrow>
   check_telegram_milestone ev passing previous total' completed_tests v = (Some e, v)"
  by (auto simp: check_telegram_milestone_flat split: if_splits sum.splits)

lemma post_webhook_proj:
  "cache (post_webhook ev pl w) = cache w"
  "manifest (post_webhook ev pl w) = manifest w"
  "outbox (post_webhook ev pl w) = outbox w @ [WebhookPost (WEBHOOK_URL ev) [pl]]"
  by (simp_all add: post_webhook_def Let_def)

lemma write_cache_proj:
  "cache (write_cache passing idx w) = Content (cache_record passing idx)"
  "manifest (write_cache passing idx w) = manifest w"
  "outbox (write_cache passing idx w) = outbox w"
  "console (write_cache passing idx w) = console w"
  by (simp_all add: write_cache_def)

lemma hashable_ints: "list_all hashable (map (\<lambda>i. JInt (int i)) idx)"
  by (induction idx) auto

lemma read_cache_written:
  "read_cache (Content (cache_record passing idx)) = (JInt passing, map (\<lambda>i. JInt (int i)) idx)"
  by (simp add: read_cache_def cache_record_def file_exists_def dict_get_def py_set_def hashable_ints)

lemma send_progress_webhook_flat:
  assumes "read_cache (cache w) = (previous, pset)"
    and "find_completed (fmt_value ev) pset (manifest w) = (idx, completed)"
  shows "send_progress_webhook ev passing total' w =
    (case py_as_int previous of
       None \<Rightarrow> (Some TypeError, w)
     | Some n \<Rightarrow>
         if passing > n
         then (case check_telegram_milestone ev passing n total' completed w of
                 (None, w1) \<Rightarrow>
                   (if env_set (WEBHOOK_URL ev)
                    then (case build_payload ev passing total' previous n completed of
                            Inl e \<Rightarrow> (Some e, w1)
                          | Inr pl \<Rightarrow> (None, write_cache passing idx (post_webhook ev pl w1)))
                    else (None, write_cache passing idx w1))
               | (Some e, w1) \<Rightarrow> (Some e, w1))
         else if \<not> file_exists (cache w)
              then (None, write_cache passing (find_indices (manifest w)) w)
              else (None, w))"
  by (cases "py_as_int previous") (simp_all add: send_progress_webhook_def assms)

lemma send_progress_webhook_not_number:
  "py_as_int (fst (read_cache (cache w))) = None \<Longrightarrow>
   send_progress_webhook ev passing total' w = (Some TypeError, w)"
  by (cases "read_cache (cache w)") (simp add: send_progress_webhook_def)

lemma send_progress_webhook_no_increase:
  "py_as_int (fst (read_cache (cache w))) = Some n \<Longrightarrow> \<not> passing > n \<Longrightarrow>
   send_progress_webhook ev passing total' w =
     (if file_exists (cache w) then (None, w)
      else (None, write_cache passing (find_indices (manifest w)) w))"
  by (cases "read_cache (cache w)") (simp add: send_progress_webhook_def)

lemma send_progress_webhook_increase:
  assumes n: "py_as_int (fst (read_cache (cache w))) = Some n" and gt: "passing > n"
    and run: "send_progress_webhook ev passing total' w = (r, w')"
  shows "(\<exists>e. r = Some e \<and> w' = w \<and>
            (\<forall>v. cache v = cache w \<and> manifest v = manifest w \<longrightarrow>
                 send_progress_webhook ev passing total' v = (r, v))) \<or>
         (r = None \<and> cache w' = Content (cache_record passing (find_indices (manifest w))) \<and>
            manifest w' = manifest w)"
proof -
  obtain previous pset where rc: "read_cache (cache w) = (previous, pset)"
    by (cases "read_cache (cache w)")
  obtain idx completed where fc: "find_completed (fmt_value ev) pset (manifest w) = (idx, completed)"
    by (cases "find_completed (fmt_value ev) pset (manifest w)")
  from fc have idx: "idx = find_indices (manifest w)"
    using fst_find_completed [of "fmt_value ev" pset "manifest w"] by simp
  from n rc have pn: "py_as_int previous = Some n" by simp
  obtain c w1 where ctm: "check_telegram_milestone ev passing n total' completed w = (c, w1)"
    by (cases "check_telegram_milestone ev passing n total' completed w")
  show ?thesis
  proof (cases c)
    case None
    with run ctm pn gt have "r = None" and "cache w' = Content (cache_record passing idx)"
      and "manifest w' = manifest w"
      using check_telegram_milestone_frame [OF ctm]
      by (auto simp: send_progress_webhook_flat [OF rc fc] build_payload_total post_webhook_proj write_cache_proj
          split: if_splits)
    with idx show ?thesis by simp
  next
    case (Some e)
    with run ctm pn gt have 1: "r = Some e" "w' = w"
      using check_telegram_milestone_raises [of ev passing n total' completed w e w1]
      by (auto simp: send_progress_webhook_flat [OF rc fc])
    have "send_progress_webhook ev passing total' v = (r, v)"
      if "cache v = cache w \<and> manifest v = manifest w" for v
    proof -
      from that rc fc have rc': "read_cache (cache v) = (previous, pset)"
        and fc': "find_completed (fmt_value ev) pset (manifest v) = (idx, completed)" by simp_all
      from ctm Some have "check_telegram_milestone ev passing n total' completed v = (Some e, v)"
        using check_telegram_milestone_raise_indep by blast
      with pn gt 1 show ?thesis by (simp add: send_progress_webhook_flat [OF rc' fc'])
    qed
    with 1 show ?thesis by blast
  qed
qed

lemma send_progress_webhook_manifest:
  assumes run: "send_progress_webhook ev passing total' w = (r, w')"
  shows "manifest w' = manifest w"
proof (cases "py_as_int (fst (read_cache (cache w)))")
  case None
  with run show ?thesis by (simp add: send_progress_webhook_not_number)
next
  case (Some n)
  show ?thesis
  proof (cases "passing > n")
    case True
    from send_progress_webhook_increase [OF Some True run] show ?thesis by auto
  next
    case False
    with Some run show ?thesis by (auto simp: send_progress_webhook_no_increase write_cache_proj split: if_splits)
  qed
qed

lemma send_progress_webhook_second:
  assumes "send_progress_webhook ev passing total' w = (r, w1)"
    and "cache v = cache w1" "manifest v = manifest w"
  shows "\<exists>r2. send_progress_webhook ev passing total' v = (r2, v)"
proof (cases "py_as_int (fst (read_cache (cache w)))")
  case None
  with assms have "w1 = w" by (simp add: send_progress_webhook_not_number)
  with assms None show ?thesis by (simp add: send_progress_webhook_not_number)
next
  case (Some n)
  show ?thesis
  proof (cases "passing > n")
    case True
    from send_progress_webhook_increase [OF Some True assms(1)] show ?thesis
    proof
      assume "\<exists>e. r = Some e \<and> w1 = w \<and>
            (\<forall>v. cache v = cache w \<and> manifest v = manifest w \<longrightarrow>
                 send_progress_webhook ev passing total' v = (r, v))"
      with assms show ?thesis by auto
    next
      assume "r = None \<and> cache w1 = Content (cache_record passing (find_indices (manifest w))) \<and>
            manifest w1 = manifest w"
      with assms have "cache v = Content (cache_record passing (find_indices (manifest w)))" by simp
      then show ?thesis
        by (simp add: send_progress_webhook_no_increase [where n = passing] read_cache_written file_exists_def)
    qed
  next
    case False
    show ?thesis
    proof (cases "file_exists (cache w)")
      case True
      with Some False assms have "w1 = w" by (simp add: send_progress_webhook_no_increase)
      with assms Some False True show ?thesis by (simp add: send_progress_webhook_no_increase)
    next
      case False2: False
      with Some False assms have "cache v = Content (cache_record passing (find_indices (manifest w)))"
        by (auto simp: send_progress_webhook_no_increase write_cache_proj)
      then show ?thesis
        by (simp add: send_progress_webhook_no_increase [where n = passing] read_cache_written file_exists_def)
    qed
  qed
qed

lemma shown_str: "shown fmt (JStr s) = Inr (if length s > 60 then take 60 s @ ''...'' else s)"
  by (simp add: shown_def py_format_def)

lemma shown_all_strs:
  "list_all is_str xs \<Longrightarrow> \<exists>ds. shown_all fmt xs = Inr ds"
proof (induction xs)
  case Nil
  then show ?case by simp
next
  case (Cons x xs)
  then obtain s where "x = JStr s" by (cases x) auto
  with Cons show ?case by (auto simp: shown_str)
qed

lemma recent_strs: "list_all is_str xs \<Longrightarrow> list_all is_str (recent xs)"
  by (auto simp: recent_def list_all_iff dest: in_set_dropD)

lemma build_message_strs:
  "list_all is_str completed \<Longrightarrow>
   \<exists>msg. build_message ev passing total' m completed = Inr msg \<and> m_milestone msg = m"
  using shown_all_strs [OF recent_strs, of completed "fmt_value ev"]
  by (auto simp: build_message_flat)


lemma send_progress_webhook_cache:
  assumes run: "send_progress_webhook ev passing total' w = (None, w')"
    and ch: "cache w' \<noteq> cache w"
  shows "cache w' = Content (cache_record passing (find_indices (manifest w)))"
proof (cases "py_as_int (fst (read_cache (cache w)))")
  case None
  with run show ?thesis by (simp add: send_progress_webhook_not_number)
next
  case (Some n)
  show ?thesis
  proof (cases "passing > n")
    case True
    from send_progress_webhook_increase [OF Some True run] show ?thesis by auto
  next
    case False
    with Some run ch show ?thesis
      by (auto simp: send_progress_webhook_no_increase write_cache_proj split: if_splits)
  qed
qed

text \<open>A numeric cached count and string descriptions: the call returns.\<close>

lemma completed_entry_str:
  "is_str (dict_get t ''description'' (JStr (''Test #'' @ str_of_nat (i + 1)))) \<Longrightarrow>
   is_str (completed_entry fmt i t)"
  by (simp add: completed_entry_def Let_def)

lemma scan_tests_strs:
  "(\<And>t d. JObj t \<in> set ts \<Longrightarrow> is_str (dict_get t ''description'' (JStr d))) \<Longrightarrow>
   list_all is_str (snd (scan_tests fmt prev k ts))"
proof (induction fmt prev k ts rule: scan_tests.induct)
  case (2 fmt prev i test rest)
  then have "list_all is_str (snd (scan_tests fmt prev (Suc i) rest))" by simp
  moreover from 2 have "is_str (completed_entry fmt i test)"
    by (simp add: completed_entry_str)
  ultimately show ?case by (simp add: case_prod_beta)
qed simp_all

lemma send_progress_webhook_returns:
  assumes n: "py_as_int (fst (read_cache (cache w))) \<noteq> None"
    and strs: "list_all is_str
       (snd (find_completed (fmt_value ev) (snd (read_cache (cache w))) (manifest w)))"
  shows "fst (send_progress_webhook ev passing total' w) = None"
proof -
  obtain previous pset where rc: "read_cache (cache w) = (previous, pset)"
    by (cases "read_cache (cache w)")
  obtain idx completed where
    fc: "find_completed (fmt_value ev) pset (manifest w) = (idx, completed)"
    by (cases "find_completed (fmt_value ev) pset (manifest w)")
  from n rc obtain k where k: "py_as_int previous = Some k" by auto
  from strs rc fc have "list_all is_str completed" by simp
  from build_message_strs [OF this] obtain msg where
    "build_message ev passing total' ((passing div 10) * 10) completed = Inr msg" by blast
  then have "fst (check_telegram_milestone ev passing k total' completed w) = None"
    by (simp add: check_telegram_milestone_flat)
  then obtain w1 where "check_telegram_milestone ev passing k total' completed w = (None, w1)"
    by (cases "check_telegram_milestone ev passing k total' completed w") simp
  with k show ?thesis
    by (simp add: send_progress_webhook_flat [OF rc fc] build_payload_total)
qed

section \<open>Rounding to one decimal\<close>




section \<open>The recent descriptions\<close>



lemma shown_all_nth:
  "shown_all fmt xs = Inr ds \<Longrightarrow>
   length ds = length xs \<and> (\<forall>i<length xs. shown fmt (xs ! i) = Inr (ds ! i))"
proof (induction xs arbitrary: ds)
  case Nil
  then show ?case by simp
next
  case (Cons x xs)
  then obtain d ds' where d: "shown fmt x = Inr d" "shown_all fmt xs = Inr ds'" "ds = d # ds'"
    by (auto split: sum.splits)
  with Cons.IH [of ds'] show ?case by (auto simp: nth_Cons split: nat.splits)
qed

lemma recent_suffix: "\<exists>older. completed = older @ recent completed"
  by (rule exI [of _ "if length completed > 5 then take (length completed - 5) completed else []"])
    (simp add: recent_def)

lemma length_recent: "length (recent completed) = min 5 (length completed)"
  by (simp add: recent_def)

lemma snd_scan_tests_records:
  "snd (scan_tests fmt prev k (map JObj ds)) =
     map (\<lambda>(i, t). completed_entry fmt i t)
       (filter (\<lambda>(i, t). truthy (dict_get t ''passes'' (JBool False)) \<and> \<not> py_in i prev)
          (enumerate k ds))"
  by (induction ds arbitrary: k) (simp_all add: case_prod_beta)

section \<open>Cache records\<close>

lemma read_cache_absent: "read_cache Absent = (JInt 0, [])"
  by (simp add: read_cache_def file_exists_def)

lemma first_run_below_ten:
  assumes c: "count_passing_tests (manifest w) = Inr (p, t)" and t: "t > 0"
    and p: "0 < p" "p < 10" and a: "cache w = Absent"
  shows "\<exists>w'. print_progress_summary ev w = (None, w') \<and>
           cache w' = Content (cache_record p (find_indices (manifest w)))"
proof -
  let ?w = "w\<lparr>console := console w @ [ProgressLine p t]\<rparr>"
  have rc: "read_cache (cache ?w) = (JInt 0, [])" using a by (simp add: read_cache_absent)
  obtain idx completed where
    fc: "find_completed (fmt_value ev) [] (manifest ?w) = (idx, completed)"
    by (cases "find_completed (fmt_value ev) [] (manifest ?w)")
  from fc have idx: "idx = find_indices (manifest w)"
    using fst_find_completed [of "fmt_value ev" "[]" "manifest ?w"] by simp
  from p have "p div 10 = 0" by simp
  then have ctm: "check_telegram_milestone ev p 0 t completed ?w = (None, ?w)"
    by (simp add: check_telegram_milestone_flat)
  from c t have "print_progress_summary ev w = send_progress_webhook ev p t ?w"
    by (simp add: print_progress_summary_def)
  with p ctm idx show ?thesis
    by (simp add: send_progress_webhook_flat [OF rc fc] build_payload_total write_cache_proj)
qed

lemma scan_indices_bound: "i \<in> set (scan_indices k ts) \<Longrightarrow> k \<le> i \<and> i < k + length ts"
  by (induction k ts rule: scan_indices.induct) (auto split: if_splits)

lemma length_scan_indices_records:
  "length (scan_indices k (map JObj ds)) = length (filter counts_as_passing (map JObj ds))"
  by (induction ds arbitrary: k) (simp_all add: counts_as_passing_def)

lemma spec_cache_invariant_record:
  "spec_cache_invariant t (cache_record p idx) = (p = int (length idx) \<and> (\<forall>i\<in>set idx. int i < t))"
  by (auto simp: spec_cache_invariant_def cache_record_def dict_get_def list_all_iff)

text \<open>
  On a manifest that is an array of records, every record \<^verbatim>\<open>print_progress_summary\<close>
  writes satisfies the invariant.
\<close>

lemma cache_invariant_on_record_arrays:
  assumes m: "manifest w = Content (JList (map JObj ds))"
    and run: "print_progress_summary ev w = (None, w')"
    and ch: "cache w' \<noteq> cache w"
  shows "\<exists>r. cache w' = Content r \<and> spec_cache_invariant (int (length ds)) r"
proof -
  let ?p = "int (length (filter counts_as_passing (map JObj ds)))"
  let ?t = "int (length ds)"
  from m have c: "count_passing_tests (manifest w) = Inr (?p, ?t)"
    by (simp add: count_passing_tests_list)
  show ?thesis
  proof (cases "?t > 0")
    case False
    with c run ch show ?thesis by (auto simp: print_progress_summary_def)
  next
    case True
    let ?w = "w\<lparr>console := console w @ [ProgressLine ?p ?t]\<rparr>"
    from c True run have s: "send_progress_webhook ev ?p ?t ?w = (None, w')"
      by (simp add: print_progress_summary_def)
    from s ch have "cache w' \<noteq> cache ?w" by simp
    from send_progress_webhook_cache [OF s this]
    have w: "cache w' = Content (cache_record ?p (find_indices (manifest w)))"
      by simp
    from m have fi: "find_indices (manifest w) = scan_indices 0 (map JObj ds)"
      by (simp add: find_indices_def file_exists_def)
    have "spec_cache_invariant ?t (cache_record ?p (scan_indices 0 (map JObj ds)))"
      using scan_indices_bound [of _ 0 "map JObj ds"]
      by (auto simp: spec_cache_invariant_record length_scan_indices_records)
    with w fi show ?thesis by simp
  qed
qed

text \<open>The definitions a concrete run unfolds.\<close>

lemmas model_defs =
  print_progress_summary_def count_passing_tests_def send_progress_webhook_def read_cache_def
  find_completed_def find_indices_def check_telegram_milestone_def build_message_def
  build_payload_def send_telegram_notification_def post_webhook_def write_cache_def cache_record_def
  percentage_def py_truediv_def file_exists_def dict_get_def dict_has_def dict_keys_def py_set_def
  py_in_def counts_as_passing_def completed_entry_def shown_def recent_def py_format_def
  TELEGRAM_MILESTONE_INTERVAL_def env_all_def env_none_def Let_def

section \<open>The claims\<close>

subsection \<open>C1: the invariant of the cache record\<close>

text \<open>
  C1 says that every cache record \<^verbatim>\<open>send_progress_webhook\<close> writes satisfies the invariant
  of the data model, for both manifest shapes the counter accepts. The code at two
  manifests, on a first run through \<^verbatim>\<open>print_progress_summary\<close>, for every configuration:
  with \<^verbatim>\<open>{"features": [{"passes": true}]}\<close> the counter returns \<open>(1, 1)\<close>, but the loop of
  line 125 walks the keys of the object, \<^verbatim>\<open>"features".get\<close> raises, and the record written
  is \<^verbatim>\<open>{"count": 1, "passing_indices": []}\<close>; with \<^verbatim>\<open>[5, {"passes": true}]\<close> the counter
  skips the entry that is no dict and returns \<open>(1, 2)\<close>, the loop stops at it, and the
  same record is written. In both the stored count is not the number of stored indices.
\<close>

theorem cache_record_breaks_invariant:
  "count_passing_tests (Content (JObj [(''features'', JList [JObj [(''passes'', JBool True)]])]))
     = Inr (1, 1) \<and>
   fst (print_progress_summary ev
     \<lparr>manifest = Content (JObj [(''features'', JList [JObj [(''passes'', JBool True)]])]),
      cache = Absent, outbox = ob, console = co\<rparr>) = None \<and>
   cache (snd (print_progress_summary ev
     \<lparr>manifest = Content (JObj [(''features'', JList [JObj [(''passes'', JBool True)]])]),
      cache = Absent, outbox = ob, console = co\<rparr>)) =
     Content (JObj [(''count'', JInt 1), (''passing_indices'', JList [])]) \<and>
   \<not> spec_cache_invariant 1 (JObj [(''count'', JInt 1), (''passing_indices'', JList [])]) \<and>
   count_passing_tests (Content (JList [JInt 5, JObj [(''passes'', JBool True)]])) = Inr (1, 2) \<and>
   cache (snd (print_progress_summary ev
     \<lparr>manifest = Content (JList [JInt 5, JObj [(''passes'', JBool True)]]),
      cache = Absent, outbox = ob, console = co\<rparr>)) =
     Content (JObj [(''count'', JInt 1), (''passing_indices'', JList [])]) \<and>
   \<not> spec_cache_invariant 2 (JObj [(''count'', JInt 1), (''passing_indices'', JList [])])"
proof -
  let ?m1 = "Content (JObj [(''features'', JList [JObj [(''passes'', JBool True)]])])"
  let ?m2 = "Content (JList [JInt 5, JObj [(''passes'', JBool True)]])"
  have c1: "count_passing_tests ?m1 = Inr (1, 1)"
    by (simp add: count_passing_tests_def file_exists_def dict_has_def dict_get_def
        counts_as_passing_def)
  have c2: "count_passing_tests ?m2 = Inr (1, 2)"
    by (simp add: count_passing_tests_def file_exists_def dict_get_def counts_as_passing_def)
  have i1: "find_indices ?m1 = []"
    by (simp add: find_indices_def file_exists_def dict_keys_def)
  have i2: "find_indices ?m2 = []"
    by (simp add: find_indices_def file_exists_def)
  have s: "\<not> spec_cache_invariant n (JObj [(''count'', JInt 1), (''passing_indices'', JList [])])"
    for n
    by (simp add: spec_cache_invariant_def dict_get_def)
  from first_run_below_ten [of "\<lparr>manifest = ?m1, cache = Absent, outbox = ob, console = co\<rparr>" 1 1 ev]
    first_run_below_ten [of "\<lparr>manifest = ?m2, cache = Absent, outbox = ob, console = co\<rparr>" 1 2 ev]
    c1 c2 i1 i2 s
  show ?thesis by (auto simp: cache_record_def)
qed

subsection \<open>C2: what count_passing_tests returns\<close>




subsection \<open>C3: exceptions that reach the caller\<close>

text \<open>
  C3 says that no exception leaves \<^verbatim>\<open>count_passing_tests\<close> or \<^verbatim>\<open>send_progress_webhook\<close>. The
  code at three inputs: on the manifest \<^verbatim>\<open>{"features": 5}\<close> line 218 takes \<^verbatim>\<open>len(5)\<close>, and
  the \<^verbatim>\<open>TypeError\<close> is not among the exceptions line 222 catches; with the cache file
  \<^verbatim>\<open>{"count": null}\<close> line 115 compares an int with \<^verbatim>\<open>None\<close> outside any \<^verbatim>\<open>try\<close>; and on
  a first run over ten passing records whose description is the number 5, with the chat
  sink configured, line 91 takes \<^verbatim>\<open>len(5)\<close> outside any \<^verbatim>\<open>try\<close>. Each exception reaches the
  caller.
\<close>

theorem exceptions_reach_caller:
  "count_passing_tests (Content (JObj [(''features'', JInt 5)])) = Inl TypeError \<and>
   send_progress_webhook ev passing total'
     \<lparr>manifest = m, cache = Content (JObj [(''count'', JNull)]), outbox = ob, console = co\<rparr> =
     (Some TypeError,
      \<lparr>manifest = m, cache = Content (JObj [(''count'', JNull)]), outbox = ob, console = co\<rparr>) \<and>
   print_progress_summary env_all
     \<lparr>manifest = Content (JList (replicate 10
         (JObj [(''passes'', JBool True), (''description'', JInt 5)]))),
      cache = Absent, outbox = [], console = []\<rparr> =
     (Some TypeError,
      \<lparr>manifest = Content (JList (replicate 10
          (JObj [(''passes'', JBool True), (''description'', JInt 5)]))),
       cache = Absent, outbox = [], console = [ProgressLine 10 10]\<rparr>)"
proof -
  have a: "count_passing_tests (Content (JObj [(''features'', JInt 5)])) = Inl TypeError"
    by (simp add: count_passing_tests_def file_exists_def dict_has_def dict_get_def)
  have b: "send_progress_webhook ev passing total'
     \<lparr>manifest = m, cache = Content (JObj [(''count'', JNull)]), outbox = ob, console = co\<rparr> =
     (Some TypeError,
      \<lparr>manifest = m, cache = Content (JObj [(''count'', JNull)]), outbox = ob, console = co\<rparr>)"
    by (simp add: send_progress_webhook_def read_cache_def file_exists_def dict_get_def py_set_def)
  have c: "print_progress_summary env_all
     \<lparr>manifest = Content (JList (replicate 10
         (JObj [(''passes'', JBool True), (''description'', JInt 5)]))),
      cache = Absent, outbox = [], console = []\<rparr> =
     (Some TypeError,
      \<lparr>manifest = Content (JList (replicate 10
          (JObj [(''passes'', JBool True), (''description'', JInt 5)]))),
       cache = Absent, outbox = [], console = [ProgressLine 10 10]\<rparr>)"
    by code_simp
  from a b c show ?thesis by blast
qed

subsection \<open>C4: when a milestone is announced\<close>



subsection \<open>C5: when the webhook is posted\<close>



subsection \<open>C6: when the cache file is written\<close>



subsection \<open>C7: a second run changes nothing\<close>

text \<open>
  C7. After one run of the full cycle, a second run on the world the first one left
  (same manifest, same configuration) attempts no request and leaves the cache file as
  it is. This holds for every starting world, so in particular when the cache file
  already existed before the first run.
\<close>

theorem second_run_idempotent:
  "print_progress_summary ev w = (r1, w1) \<Longrightarrow> print_progress_summary ev w1 = (r2, w2) \<Longrightarrow>
     outbox w2 = outbox w1 \<and> cache w2 = cache w1 \<and> manifest w2 = manifest w1"
proof -
  assume a: "print_progress_summary ev w = (r1, w1)"
    and b: "print_progress_summary ev w1 = (r2, w2)"
  show ?thesis
  proof (cases "count_passing_tests (manifest w)")
    case (Inl e)
    with a have "w1 = w" by (simp add: print_progress_summary_def)
    with b Inl show ?thesis by (simp add: print_progress_summary_def)
  next
    case (Inr pt)
    obtain p t where pt: "pt = (p, t)" by (cases pt)
    show ?thesis
    proof (cases "t > 0")
      case False
      with a Inr pt have w1: "w1 = w\<lparr>console := console w @ [Placeholder]\<rparr>"
        by (simp add: print_progress_summary_def)
      with b Inr pt False show ?thesis by (auto simp: print_progress_summary_def)
    next
      case True
      with a Inr pt have s1:
        "send_progress_webhook ev p t (w\<lparr>console := console w @ [ProgressLine p t]\<rparr>) = (r1, w1)"
        by (simp add: print_progress_summary_def)
      from send_progress_webhook_manifest [OF s1] have m1: "manifest w1 = manifest w" by simp
      let ?v = "w1\<lparr>console := console w1 @ [ProgressLine p t]\<rparr>"
      from send_progress_webhook_second [OF s1, of ?v] m1 obtain r' where
        s2: "send_progress_webhook ev p t ?v = (r', ?v)" by auto
      from b Inr pt True m1 s2 have "w2 = ?v" by (simp add: print_progress_summary_def)
      then show ?thesis by simp
    qed
  qed
qed

theorem second_run_idempotent_witness:
  "print_progress_summary env_all
     \<lparr>manifest = Content (JList [JObj [(''passes'', JBool True)], JObj [(''passes'', JBool False)]]),
      cache = Content (JObj [(''count'', JInt 0), (''passing_indices'', JList [])]),
      outbox = [], console = []\<rparr> =
   (None,
     \<lparr>manifest = Content (JList [JObj [(''passes'', JBool True)], JObj [(''passes'', JBool False)]]),
      cache = Content (JObj [(''count'', JInt 1), (''passing_indices'', JList [JInt 0])]),
      outbox = [WebhookPost (Some ''https://hooks.example/progress'')
         [\<lparr>p_event = ''test_progress'', p_passing = 1, p_total = 2, p_percentage = 50,
           p_previous_passing = JInt 0, p_tests_completed_this_session = 1,
           p_completed_tests = [JStr ''Test #1''], p_project = ''demo'',
           p_timestamp = ''2025-01-01T12:00:00Z''\<rparr>]],
      console = [ProgressLine 1 2]\<rparr>) \<and>
   print_progress_summary env_all
     \<lparr>manifest = Content (JList [JObj [(''passes'', JBool True)], JObj [(''passes'', JBool False)]]),
      cache = Content (JObj [(''count'', JInt 1), (''passing_indices'', JList [JInt 0])]),
      outbox = [WebhookPost (Some ''https://hooks.example/progress'')
         [\<lparr>p_event = ''test_progress'', p_passing = 1, p_total = 2, p_percentage = 50,
           p_previous_passing = JInt 0, p_tests_completed_this_session = 1,
           p_completed_tests = [JStr ''Test #1''], p_project = ''demo'',
           p_timestamp = ''2025-01-01T12:00:00Z''\<rparr>]],
      console = [ProgressLine 1 2]\<rparr> =
   (None,
     \<lparr>manifest = Content (JList [JObj [(''passes'', JBool True)], JObj [(''passes'', JBool False)]]),
      cache = Content (JObj [(''count'', JInt 1), (''passing_indices'', JList [JInt 0])]),
      outbox = [WebhookPost (Some ''https://hooks.example/progress'')
         [\<lparr>p_event = ''test_progress'', p_passing = 1, p_total = 2, p_percentage = 50,
           p_previous_passing = JInt 0, p_tests_completed_this_session = 1,
           p_completed_tests = [JStr ''Test #1''], p_project = ''demo'',
           p_timestamp = ''2025-01-01T12:00:00Z''\<rparr>]],
      console = [ProgressLine 1 2, ProgressLine 1 2]\<rparr>)"
proof -
  let ?w = "\<lparr>manifest = Content (JList [JObj [(''passes'', JBool True)], JObj [(''passes'', JBool False)]]),
      cache = Content (JObj [(''count'', JInt 0), (''passing_indices'', JList [])]),
      outbox = [], console = []\<rparr>"
  let ?w1 = "\<lparr>manifest = Content (JList [JObj [(''passes'', JBool True)], JObj [(''passes'', JBool False)]]),
      cache = Content (JObj [(''count'', JInt 1), (''passing_indices'', JList [JInt 0])]),
      outbox = [WebhookPost (Some ''https://hooks.example/progress'')
         [\<lparr>p_event = ''test_progress'', p_passing = 1, p_total = 2, p_percentage = 50,
           p_previous_passing = JInt 0, p_tests_completed_this_session = 1,
           p_completed_tests = [JStr ''Test #1''], p_project = ''demo'',
           p_timestamp = ''2025-01-01T12:00:00Z''\<rparr>]],
      console = [ProgressLine 1 2]\<rparr>"
  have one: "print_progress_summary env_all ?w = (None, ?w1)"
    by (simp add: model_defs py_round1_def)
  obtain r2 w2 where two: "print_progress_summary env_all ?w1 = (r2, w2)"
    by (cases "print_progress_summary env_all ?w1")
  from second_run_idempotent [OF one two] one two show ?thesis
    by (simp add: model_defs py_round1_def)
qed

subsection \<open>C8: the percentage\<close>



subsection \<open>C9: the recent descriptions of the milestone message\<close>

text \<open>
  C9. The milestone message shows the last \<open>min 5 n\<close> of the \<open>n\<close> completed entries, in
  their order. A string entry of more than 60 characters is shown as its first 60
  characters followed by \<^verbatim>\<open>...\<close> (so one of exactly 61 is), one of 60 or fewer as it is.
  An entry is \<^verbatim>\<open>[category] description\<close> when the record's category is a non-empty
  string, and the description alone when the category is empty or missing. Over an array
  of records the entries are those of the newly passing records, in manifest order.
\<close>

theorem recent_descriptions_shown:
  "(\<forall>ev passing total' m completed msg.
      build_message ev passing total' m completed = Inr msg \<longrightarrow>
        shown_all (fmt_value ev) (recent completed) = Inr (m_recent msg) \<and>
        length (m_recent msg) = min 5 (length completed) \<and>
        (\<exists>older. completed = older @ recent completed)) \<and>
   (\<forall>fmt xs ds. shown_all fmt xs = Inr ds \<longrightarrow>
      length ds = length xs \<and> (\<forall>i<length xs. shown fmt (xs ! i) = Inr (ds ! i))) \<and>
   (\<forall>fmt s. shown fmt (JStr s) = Inr (if length s > 60 then take 60 s @ ''...'' else s)) \<and>
   (\<forall>fmt s. length s = 61 \<longrightarrow> shown fmt (JStr s) = Inr (take 60 s @ ''...'')) \<and>
   (\<forall>fmt s. length s \<le> 60 \<longrightarrow> shown fmt (JStr s) = Inr s) \<and>
   (\<forall>fmt i test c d.
      dict_get test ''category'' (JStr []) = JStr c \<and> c \<noteq> [] \<and>
      dict_get test ''description'' (JStr (''Test #'' @ str_of_nat (i + 1))) = JStr d \<longrightarrow>
        completed_entry fmt i test = JStr (''['' @ c @ ''] '' @ d)) \<and>
   (\<forall>fmt i test.
      dict_get test ''category'' (JStr []) = JStr [] \<longrightarrow>
        completed_entry fmt i test =
          dict_get test ''description'' (JStr (''Test #'' @ str_of_nat (i + 1)))) \<and>
   (\<forall>fmt prev k ds.
      snd (scan_tests fmt prev k (map JObj ds)) =
        map (\<lambda>(i, t). completed_entry fmt i t)
          (filter (\<lambda>(i, t). truthy (dict_get t ''passes'' (JBool False)) \<and> \<not> py_in i prev)
             (enumerate k ds)))"
  apply (intro conjI)
  subgoal
    using shown_all_nth recent_suffix
    by (auto simp: build_message_flat length_recent split: sum.splits)
  subgoal using shown_all_nth by blast
  subgoal by (simp add: shown_str)
  subgoal by (simp add: shown_str)
  subgoal by (simp add: shown_str)
  subgoal by (simp add: completed_entry_def Let_def py_format_def)
  subgoal by (simp add: completed_entry_def Let_def)
  subgoal using snd_scan_tests_records by blast
  done

theorem recent_descriptions_shown_witness:
  "build_message env_all 10 20 10
     [JStr ''t1'', JStr ''t2'', JStr ''t3'', JStr ''t4'', JStr ''t5'', JStr ''t6'',
      JStr ''aaaaaaaaaaaaaaaaaaaaaaaaaaaaaaaaaaaaaaaaaaaaaaaaaaaaaaaaaaaa'',
      JStr ''aaaaaaaaaaaaaaaaaaaaaaaaaaaaaaaaaaaaaaaaaaaaaaaaaaaaaaaaaaaab''] =
   Inr \<lparr>m_project = ''demo'', m_passing = 10, m_total = 20, m_percentage = 50, m_milestone = 10,
        m_recent = [''t4'', ''t5'', ''t6'',
          ''aaaaaaaaaaaaaaaaaaaaaaaaaaaaaaaaaaaaaaaaaaaaaaaaaaaaaaaaaaaa'',
          ''aaaaaaaaaaaaaaaaaaaaaaaaaaaaaaaaaaaaaaaaaaaaaaaaaaaaaaaaaaaa...''],
        m_time = ''2025-01-01 12:00:00''\<rparr> \<and>
   completed_entry (\<lambda>v. ''?'') 0
     [(''description'', JStr ''login works''), (''category'', JStr ''auth''), (''passes'', JBool True)]
     = JStr ''[auth] login works'' \<and>
   completed_entry (\<lambda>v. ''?'') 0
     [(''description'', JStr ''login works''), (''category'', JStr []), (''passes'', JBool True)]
     = JStr ''login works'' \<and>
   completed_entry (\<lambda>v. ''?'') 4 [(''passes'', JBool True)] = JStr ''Test #5''"
proof -
  have a: "build_message env_all 10 20 10
     [JStr ''t1'', JStr ''t2'', JStr ''t3'', JStr ''t4'', JStr ''t5'', JStr ''t6'',
      JStr ''aaaaaaaaaaaaaaaaaaaaaaaaaaaaaaaaaaaaaaaaaaaaaaaaaaaaaaaaaaaa'',
      JStr ''aaaaaaaaaaaaaaaaaaaaaaaaaaaaaaaaaaaaaaaaaaaaaaaaaaaaaaaaaaaab''] =
   Inr \<lparr>m_project = ''demo'', m_passing = 10, m_total = 20, m_percentage = 50, m_milestone = 10,
        m_recent = [''t4'', ''t5'', ''t6'',
          ''aaaaaaaaaaaaaaaaaaaaaaaaaaaaaaaaaaaaaaaaaaaaaaaaaaaaaaaaaaaa'',
          ''aaaaaaaaaaaaaaaaaaaaaaaaaaaaaaaaaaaaaaaaaaaaaaaaaaaaaaaaaaaa...''],
        m_time = ''2025-01-01 12:00:00''\<rparr>"
    by code_simp
  have b: "completed_entry (\<lambda>v. ''?'') 0
     [(''description'', JStr ''login works''), (''category'', JStr ''auth''), (''passes'', JBool True)]
     = JStr ''[auth] login works''"
    "completed_entry (\<lambda>v. ''?'') 0
     [(''description'', JStr ''login works''), (''category'', JStr []), (''passes'', JBool True)]
     = JStr ''login works''"
    "completed_entry (\<lambda>v. ''?'') 4 [(''passes'', JBool True)] = JStr ''Test #5''"
    by (simp_all add: completed_entry_def dict_get_def py_format_def)
  from recent_descriptions_shown a b show ?thesis by blast
qed

subsection \<open>C10: nothing happens while the total is 0\<close>

text \<open>
  C10. Whenever \<^verbatim>\<open>count_passing_tests\<close> yields a total of 0, \<^verbatim>\<open>print_progress_summary\<close>
  prints the placeholder line and nothing else happens: \<^verbatim>\<open>send_progress_webhook\<close> is not
  called, so the cache file is neither created nor changed and no request is attempted,
  also when no cache file exists yet.
\<close>

theorem print_progress_summary_total_zero:
  "count_passing_tests (manifest w) = Inr (passing, 0) \<Longrightarrow>
   print_progress_summary ev w = (None, w\<lparr>console := console w @ [Placeholder]\<rparr>)"
  by (simp add: print_progress_summary_def)

theorem print_progress_summary_total_zero_witness:
  "count_passing_tests (manifest \<lparr>manifest = Absent, cache = Absent, outbox = [], console = []\<rparr>)
     = Inr (0, 0) \<and>
   print_progress_summary env_all \<lparr>manifest = Absent, cache = Absent, outbox = [], console = []\<rparr>
     = (None, \<lparr>manifest = Absent, cache = Absent, outbox = [], console = [Placeholder]\<rparr>)"
proof -
  have h: "count_passing_tests
             (manifest \<lparr>manifest = Absent, cache = Absent, outbox = [], console = []\<rparr>) = Inr (0, 0)"
    by (simp add: count_passing_tests_no_file)
  show ?thesis
    using h print_progress_summary_total_zero [OF h, of env_all] by simp
qed

end
